theory Spec2Isabelle
  imports Complex_Main "HOL-Library.Char_ord" "HOL-Library.List_Lexorder"
begin

section \<open>The detection store\<close>

text \<open>
  The program keeps one SQLite table,
  \<^verbatim>\<open>detections(id INTEGER PRIMARY KEY AUTOINCREMENT,
             detection_time DATETIME DEFAULT CURRENT_TIMESTAMP,
             item_type TEXT CHECK(item_type IN ('organic')),
             confidence FLOAT)\<close>
  and a list of open websockets. A row of the table is a record; a nullable column is an
  \<open>option\<close> (\<open>None\<close> is SQL NULL). \<open>detection_time\<close> is always filled in by
  \<open>CURRENT_TIMESTAMP\<close>, a UTC text \<open>YYYY-MM-DD HH:MM:SS\<close>; the model keeps the instant it
  denotes, in whole seconds since 1970-01-01 00:00:00 UTC. Texts of that fixed-width form
  compare as the instants do. A confidence is a Python float; the model computes with
  reals, so rounding and the floats that are not numbers are outside it.
\<close>

type_synonym timestamp = int

record detection =
  det_id :: int
  detection_time :: timestamp
  item_type :: "string option"
  confidence :: "real option"

text \<open>
  The table together with the counter SQLite keeps in \<open>sqlite_sequence\<close> for an
  AUTOINCREMENT key: the largest rowid the table has ever held (0 for a fresh table).
  Rows are listed in insertion order.

  The last two fields are not data. A \<open>GROUP BY\<close> without \<open>ORDER BY\<close> yields its groups
  in an order that SQL leaves to the engine. The model leaves it open as well: the
  database carries, for the hourly and for the monthly query, a rank of the group keys,
  and the groups come by ascending rank (groups of equal rank as their keys occur in the
  rows). Every order of the groups is the order of some rank.
\<close>

record database =
  detections :: "detection list"
  sqlite_sequence :: int
  hour_group_rank :: "string \<Rightarrow> nat"
  month_group_rank :: "int \<Rightarrow> nat"

text \<open>Two ranks under which the groups come by ascending key: for texts of one length
  (their value in base 256) and for integers from 0 on.\<close>

definition text_rank :: "string \<Rightarrow> nat" where
  "text_rank s = foldl (\<lambda>a c. a * 256 + of_char c) 0 s"

definition int_rank :: "int \<Rightarrow> nat" where
  "int_rank i = nat i"

datatype error = IntegrityError | DatabaseFull | SendError | ValueError

text \<open>The table as \<open>init_db\<close> creates it in a new file, with an engine that yields
  groups by ascending key.\<close>

definition init_db :: database where
  "init_db = \<lparr>detections = [], sqlite_sequence = 0,
              hour_group_rank = text_rank, month_group_rank = int_rank\<rparr>"

text \<open>The column constraint \<open>CHECK(item_type IN ('organic'))\<close>. A CHECK constraint is
  violated only when its expression is false; on NULL the expression is NULL and the row
  is accepted.\<close>

definition check_item_type :: "string option \<Rightarrow> bool" where
  "check_item_type v = (case v of None \<Rightarrow> True | Some s \<Rightarrow> s = ''organic'')"

text \<open>Rowids are signed 64-bit integers.\<close>

definition max_rowid :: int where
  "max_rowid = 9223372036854775807"

text \<open>The largest rowid that has ever been in the table: the larger of the counter and
  of the rowids present.\<close>

definition largest_rowid :: "database \<Rightarrow> int" where
  "largest_rowid d = fold max (map det_id (detections d)) (sqlite_sequence d)"

text \<open>
  \<open>INSERT INTO detections (item_type, confidence) VALUES (?, ?)\<close> at the instant \<open>now\<close>.
  With AUTOINCREMENT the new rowid is one more than the largest rowid ever held, and the
  statement fails with SQLITE_FULL when that one is the largest integer. The rowid is
  chosen before the constraints are checked. A failed statement leaves the table as it
  was. The result pairs the outcome (the error raised, or \<open>last_insert_rowid()\<close>) with the
  table afterwards.
\<close>

definition insert_detection ::
  "timestamp \<Rightarrow> string option \<Rightarrow> real option \<Rightarrow> database \<Rightarrow> (error + int) \<times> database" where
  "insert_detection now item conf d =
     (if max_rowid \<le> largest_rowid d then (Inl DatabaseFull, d)
      else if \<not> check_item_type item then (Inl IntegrityError, d)
      else
        (let rid = largest_rowid d + 1 in
           (Inr rid,
            d\<lparr>detections := detections d @
                 [\<lparr>det_id = rid, detection_time = now, item_type = item, confidence = conf\<rparr>],
              sqlite_sequence := rid\<rparr>)))"

section \<open>SQLite's date functions and aggregates\<close>

text \<open>
  The queries read a timestamp through \<open>DATE\<close> and \<open>strftime\<close>. Two \<open>DATE\<close> texts are
  equal exactly when the instants fall on the same UTC day, so \<open>sql_date\<close> is the day
  number. The civil date of a day number follows the proleptic Gregorian calendar, which
  is the calendar of SQLite's date functions.
\<close>

definition sql_date :: "timestamp \<Rightarrow> int" where
  "sql_date t = t div 86400"

definition civil_from_days :: "int \<Rightarrow> int \<times> int \<times> int" where
  "civil_from_days z0 =
     (let z = z0 + 719468;
          era = z div 146097;
          doe = z mod 146097;
          yoe = (doe - doe div 1460 + doe div 36524 - doe div 146096) div 365;
          doy = doe - (365 * yoe + yoe div 4 - yoe div 100);
          mp = (5 * doy + 2) div 153;
          dd = doy - (153 * mp + 2) div 5 + 1;
          m = (if mp < 10 then mp + 3 else mp - 9);
          y = yoe + era * 400 + (if m \<le> 2 then 1 else 0)
      in (y, m, dd))"

text \<open>\<open>strftime('%Y', t)\<close> and \<open>strftime('%m', t)\<close>, read as numbers: the queries only
  compare the year's text with \<open>'2025'\<close> and cast the month's text to an integer.\<close>

definition strftime_Y :: "timestamp \<Rightarrow> int" where
  "strftime_Y t = fst (civil_from_days (sql_date t))"

definition strftime_m :: "timestamp \<Rightarrow> int" where
  "strftime_m t = fst (snd (civil_from_days (sql_date t)))"

definition digit_char :: "nat \<Rightarrow> char" where
  "digit_char n = ''0123456789'' ! (n mod 10)"

definition two_digits :: "nat \<Rightarrow> string" where
  "two_digits n = [digit_char (n div 10), digit_char n]"

text \<open>\<open>strftime('%H', t)\<close>: the hour of the day as a two-character text.\<close>

definition hour_of :: "timestamp \<Rightarrow> nat" where
  "hour_of t = nat ((t mod 86400) div 3600)"

definition strftime_H :: "timestamp \<Rightarrow> string" where
  "strftime_H t = two_digits (hour_of t)"

text \<open>\<open>AVG\<close> skips NULLs and is NULL when nothing is left.\<close>

definition sql_avg :: "real option list \<Rightarrow> real option" where
  "sql_avg vs =
     (let xs = List.map_filter (\<lambda>v. v) vs
      in if xs = [] then None else Some (sum_list xs / real (length xs)))"

text \<open>
  \<open>GROUP BY key\<close>: one group for every key that occurs, holding the rows with that key.
  Neither query that groups has an ORDER BY on its groups, so their order is the
  engine's: the groups come by ascending \<open>rank\<close>, whatever the rank is.
\<close>

definition sql_group_by ::
  "('k \<Rightarrow> nat) \<Rightarrow> ('r \<Rightarrow> 'k) \<Rightarrow> 'r list \<Rightarrow> ('k \<times> 'r list) list" where
  "sql_group_by rank key rows =
     map (\<lambda>k. (k, filter (\<lambda>r. key r = k) rows)) (sort_key rank (remdups (map key rows)))"

text \<open>\<open>ls LEFT JOIN rs ON on\<close>: every left row with each right row that matches it, or
  once with NULL when none does.\<close>

definition left_join :: "'a list \<Rightarrow> 'b list \<Rightarrow> ('a \<Rightarrow> 'b \<Rightarrow> bool) \<Rightarrow> ('a \<times> 'b option) list" where
  "left_join ls rs on =
     concat (map (\<lambda>l. case filter (on l) rs of
                          [] \<Rightarrow> [(l, None)]
                        | ms \<Rightarrow> map (\<lambda>r. (l, Some r)) ms) ls)"

definition coalesce :: "'a option \<Rightarrow> 'a \<Rightarrow> 'a" where
  "coalesce v d = (case v of None \<Rightarrow> d | Some x \<Rightarrow> x)"

section \<open>The statistics of \<open>/api/stats\<close>\<close>

text \<open>A row of \<open>hourly_data\<close>; the JSON key of \<open>avg_confidence\<close> is \<open>confidence\<close>.\<close>

record hourly_row =
  hour :: string
  count :: nat
  avg_confidence :: real

record stats =
  daily_total :: nat
  daily_avg_confidence :: "real option"
  compost_kg :: real
  hourly_data :: "hourly_row list"

text \<open>
  \<open>get_stats(hours)\<close> at the instant \<open>now\<close>. The first query counts and averages the rows
  of the current UTC day. The second takes the rows later than \<open>datetime('now', '-24 hours')\<close>
  and groups them by hour label, with no ORDER BY; the text of the query is fixed, and
  \<open>hours\<close> occurs nowhere in the body. In the result \<open>daily[1]\<close> is passed on as it is, while each hourly
  average goes through \<open>float(conf or 0)\<close>.
\<close>

definition get_stats :: "int \<Rightarrow> timestamp \<Rightarrow> database \<Rightarrow> stats" where
  "get_stats hours now d =
     (let today = filter (\<lambda>r. sql_date (detection_time r) = sql_date now) (detections d);
          daily = (length today, sql_avg (map confidence today));
          recent = filter (\<lambda>r. now - 24 * 3600 < detection_time r) (detections d);
          hourly = map (\<lambda>(h, g). (h, length g, sql_avg (map confidence g)))
                     (sql_group_by (hour_group_rank d)
                        (\<lambda>r. strftime_H (detection_time r)) recent)
      in \<lparr>daily_total = fst daily,
          daily_avg_confidence = snd daily,
          compost_kg = real (fst daily) * (1 / 10),
          hourly_data =
            map (\<lambda>(h, c, conf). \<lparr>hour = h, count = c, avg_confidence = coalesce conf 0\<rparr>) hourly\<rparr>)"

section \<open>The monthly breakdown of \<open>/detections/monthly\<close>\<close>

text \<open>The \<open>months\<close> table of the query. A Python string is a sequence of code points;
  the three accented letters are the code points 0xE9 and 0xFB.\<close>

definition months :: "(int \<times> string) list" where
  "months =
     [(1, ''Janvier''), (2, ''F'' @ [CHR 0xE9] @ ''vrier''), (3, ''Mars''), (4, ''Avril''),
      (5, ''Mai''), (6, ''Juin''), (7, ''Juillet''), (8, ''Ao'' @ [CHR 0xFB] @ ''t''),
      (9, ''Septembre''), (10, ''Octobre''), (11, ''Novembre''),
      (12, ''D'' @ [CHR 0xE9] @ ''cembre'')]"

text \<open>\<open>detections_by_month\<close>: the rows of year 2025, grouped by month, as
  \<open>(month_num, count)\<close>.\<close>

definition detections_by_month :: "database \<Rightarrow> (int \<times> nat) list" where
  "detections_by_month d =
     map (\<lambda>(m, g). (m, length g))
       (sql_group_by (month_group_rank d) (\<lambda>r. strftime_m (detection_time r))
          (filter (\<lambda>r. strftime_Y (detection_time r) = 2025) (detections d)))"

record monthly_detection =
  month_name :: string
  detection_count :: nat
  masse :: nat

definition get_monthly_detections :: "database \<Rightarrow> monthly_detection list" where
  "get_monthly_detections d =
     map (\<lambda>(m, r). \<lparr>month_name = snd m,
                     detection_count = coalesce (map_option snd r) 0,
                     masse = coalesce (map_option snd r) 0 * 100\<rparr>)
       (sort_key (\<lambda>(m, r). fst m)
          (left_join months (detections_by_month d) (\<lambda>m r. fst m = fst r)))"

section \<open>The connection manager and the endpoints\<close>

text \<open>
  A websocket is an object; the model names it by a number. What a socket does on
  \<open>send_json\<close> belongs to the framework: a socket in \<open>disconnected\<close> raises, any other
  takes the message, recorded in \<open>received\<close>.
\<close>

type_synonym websocket = nat

record message =
  event :: string
  data_id :: int
  data_confidence :: real
  data_timestamp :: timestamp
  msg_stats :: stats

record world =
  db :: database
  active_connections :: "websocket list"
  disconnected :: "websocket set"
  received :: "websocket \<Rightarrow> message list"

definition send_json :: "websocket \<Rightarrow> message \<Rightarrow> world \<Rightarrow> (error + unit) \<times> world" where
  "send_json c msg w =
     (if c \<in> disconnected w then (Inl SendError, w)
      else (Inr (), w\<lparr>received := (received w)(c := received w c @ [msg])\<rparr>))"

text \<open>\<open>ConnectionManager.connect\<close>: accept, then append to the list.\<close>

definition connect :: "websocket \<Rightarrow> world \<Rightarrow> world" where
  "connect ws w = w\<lparr>active_connections := active_connections w @ [ws]\<rparr>"

text \<open>\<open>ConnectionManager.broadcast\<close>: the \<open>for\<close> loop over the list. An exception of
  \<open>send_json\<close> is not caught: it ends the loop and leaves the method.\<close>

fun broadcast_loop :: "websocket list \<Rightarrow> message \<Rightarrow> world \<Rightarrow> (error + unit) \<times> world" where
  "broadcast_loop [] msg w = (Inr (), w)"
| "broadcast_loop (c # cs) msg w =
     (case send_json c msg w of
        (Inl e, w') \<Rightarrow> (Inl e, w')
      | (Inr u, w') \<Rightarrow> broadcast_loop cs msg w')"

definition broadcast :: "message \<Rightarrow> world \<Rightarrow> (error + unit) \<times> world" where
  "broadcast msg w = broadcast_loop (active_connections w) msg w"

text \<open>Python's \<open>list.remove(x)\<close>: drops the first occurrence, raises ValueError when
  there is none.\<close>

definition list_remove :: "'a \<Rightarrow> 'a list \<Rightarrow> error + 'a list" where
  "list_remove x xs = (if x \<in> set xs then Inr (remove1 x xs) else Inl ValueError)"

text \<open>The \<open>except WebSocketDisconnect\<close> branch of \<open>websocket_endpoint\<close>, the only place
  where a socket leaves the list.\<close>

definition websocket_disconnect :: "websocket \<Rightarrow> world \<Rightarrow> (error + unit) \<times> world" where
  "websocket_disconnect ws w =
     (case list_remove ws (active_connections w) of
        Inl e \<Rightarrow> (Inl e, w)
      | Inr cs \<Rightarrow> (Inr (), w\<lparr>active_connections := cs\<rparr>))"

text \<open>
  \<open>add_detection(confidence)\<close>: the insert (committed when the \<open>with\<close> block is
  left), then \<open>get_stats()\<close>, then the broadcast, then the answer
  \<open>{"status": "success"}\<close>, modelled by its status text. One clock reading \<open>now\<close>
  stands for the instants of the call. An exception of the insert or of the broadcast
  leaves the handler; the row inserted before a failed broadcast stays in the table.
\<close>

definition add_detection :: "timestamp \<Rightarrow> real \<Rightarrow> world \<Rightarrow> (error + string) \<times> world" where
  "add_detection now conf w =
     (case insert_detection now (Some ''organic'') (Some conf) (db w) of
        (Inl e, d') \<Rightarrow> (Inl e, w\<lparr>db := d'\<rparr>)
      | (Inr detection_id, d') \<Rightarrow>
          (let st = get_stats 24 now d';
               msg = \<lparr>event = ''new_detection'', data_id = detection_id,
                      data_confidence = conf, data_timestamp = now, msg_stats = st\<rparr>
           in case broadcast msg (w\<lparr>db := d'\<rparr>) of
                (Inl e, w') \<Rightarrow> (Inl e, w')
              | (Inr u, w') \<Rightarrow> (Inr ''success'', w')))"

section \<open>Sample states\<close>

text \<open>A world with an empty table and no websocket.\<close>

definition hub0 :: world where
  "hub0 = \<lparr>db = init_db, active_connections = [], disconnected = {}, received = (\<lambda>c. [])\<rparr>"

text \<open>Two subscribed sockets; the connection of socket 1 is gone, its endpoint has not
  yet seen the disconnect.\<close>

definition hub_one_dead :: world where
  "hub_one_dead = hub0\<lparr>active_connections := [1, 2], disconnected := {1}\<rparr>"

text \<open>Two detections of 2025-03-15, at 10:15:00 and 12:30:00 UTC.\<close>

definition db_two :: database where
  "db_two =
     \<lparr>detections =
        [\<lparr>det_id = 1, detection_time = 1742033700, item_type = Some ''organic'',
          confidence = Some (9 / 10)\<rparr>,
         \<lparr>det_id = 2, detection_time = 1742041800, item_type = Some ''organic'',
          confidence = Some (1 / 2)\<rparr>],
      sqlite_sequence = 2, hour_group_rank = text_rank, month_group_rank = int_rank\<rparr>"

text \<open>Four detections: 2024-03-15 12:30:00, the two of \<open>db_two\<close>, and
  2026-01-01 00:00:00 UTC.\<close>

definition db_years :: database where
  "db_years =
     \<lparr>detections =
        [\<lparr>det_id = 1, detection_time = 1710505800, item_type = Some ''organic'',
          confidence = Some (4 / 5)\<rparr>,
         \<lparr>det_id = 2, detection_time = 1742033700, item_type = Some ''organic'',
          confidence = Some (9 / 10)\<rparr>,
         \<lparr>det_id = 3, detection_time = 1742041800, item_type = Some ''organic'',
          confidence = Some (1 / 2)\<rparr>,
         \<lparr>det_id = 4, detection_time = 1767225600, item_type = Some ''organic'',
          confidence = Some (7 / 10)\<rparr>],
      sqlite_sequence = 4, hour_group_rank = text_rank, month_group_rank = int_rank\<rparr>"


definition msg0 :: message where
  "msg0 = \<lparr>event = ''new_detection'', data_id = 2, data_confidence = 1 / 2,
           data_timestamp = 1742041800, msg_stats = get_stats 24 1742041800 db_two\<rparr>"

text \<open>
  The runs of the program, as far as the list of subscribers goes. \<open>run U E w\<close>: the
  program can reach the world \<open>w\<close>, with \<open>U\<close> the sockets accepted so far and \<open>E\<close> the
  sockets whose endpoint is in its receive loop. An endpoint connects a new socket; it
  ends in its disconnect branch, or with another exception that removes nothing; a
  detection is reported; the connection of a socket is lost.
\<close>

inductive run :: "websocket set \<Rightarrow> websocket set \<Rightarrow> world \<Rightarrow> bool" where
  start: "active_connections w = [] \<Longrightarrow> run {} {} w"
| accept: "run U E w \<Longrightarrow> ws \<notin> U \<Longrightarrow> run (insert ws U) (insert ws E) (connect ws w)"
| disconnect: "run U E w \<Longrightarrow> ws \<in> E \<Longrightarrow> run U (E - {ws}) (snd (websocket_disconnect ws w))"
| crash: "run U E w \<Longrightarrow> ws \<in> E \<Longrightarrow> run U (E - {ws}) w"
| report: "run U E w \<Longrightarrow> run U E (snd (add_detection now conf w))"
| lost: "run U E w \<Longrightarrow> run U E (w\<lparr>disconnected := insert ws (disconnected w)\<rparr>)"

text \<open>The number of stored rows of year 2025 whose month is \<open>m\<close>.\<close>

abbreviation count_2025 :: "database \<Rightarrow> int \<Rightarrow> nat" where
  "count_2025 d m \<equiv>
     length (filter (\<lambda>r. strftime_Y (detection_time r) = 2025 \<and>
                          strftime_m (detection_time r) = m) (detections d))"

section \<open>Auxiliary facts\<close>

subsection \<open>Rowids\<close>

lemma fold_max_ge_init: "(a::int) \<le> fold max xs a"
proof (induction xs arbitrary: a)
  case Nil
  show ?case by simp
next
  case (Cons x xs)
  have "a \<le> max x a" by simp
  also have "max x a \<le> fold max xs (max x a)" by (rule Cons.IH)
  finally show ?case by simp
qed

lemma fold_max_ge_elem: "x \<in> set xs \<Longrightarrow> (x::int) \<le> fold max xs a"
proof (induction xs arbitrary: a)
  case Nil
  then show ?case by simp
next
  case (Cons y ys)
  show ?case
  proof (cases "x = y")
    case True
    have "x \<le> max y a" using True by simp
    also have "max y a \<le> fold max ys (max y a)" by (rule fold_max_ge_init)
    finally show ?thesis by simp
  next
    case False
    with Cons.prems have "x \<in> set ys" by simp
    then show ?thesis using Cons.IH by simp
  qed
qed

lemma largest_rowid_ge_seq: "sqlite_sequence d \<le> largest_rowid d"
  by (simp add: largest_rowid_def fold_max_ge_init)

lemma largest_rowid_ge_row: "r \<in> set (detections d) \<Longrightarrow> det_id r \<le> largest_rowid d"
  by (simp add: largest_rowid_def fold_max_ge_elem)

lemma insert_detection_ok:
  "largest_rowid d < max_rowid \<Longrightarrow>
   insert_detection now (Some ''organic'') conf d =
     (Inr (largest_rowid d + 1),
      d\<lparr>detections := detections d @
           [\<lparr>det_id = largest_rowid d + 1, detection_time = now,
             item_type = Some ''organic'', confidence = conf\<rparr>],
        sqlite_sequence := largest_rowid d + 1\<rparr>)"
  by (simp add: insert_detection_def check_item_type_def Let_def)

lemma insert_detection_full:
  "max_rowid \<le> largest_rowid d \<Longrightarrow> insert_detection now item conf d = (Inl DatabaseFull, d)"
  by (simp add: insert_detection_def)

subsection \<open>The broadcast loop\<close>

lemma broadcast_loop_fields:
  "db (snd (broadcast_loop cs msg w)) = db w \<and>
   active_connections (snd (broadcast_loop cs msg w)) = active_connections w \<and>
   disconnected (snd (broadcast_loop cs msg w)) = disconnected w"
proof (induction cs arbitrary: w)
  case Nil
  show ?case by simp
next
  case (Cons c cs)
  show ?case
  proof (cases "c \<in> disconnected w")
    case True
    then show ?thesis by (simp add: send_json_def)
  next
    case False
    then show ?thesis using Cons.IH by (simp add: send_json_def)
  qed
qed

lemma broadcast_loop_all_open:
  "set cs \<inter> disconnected w = {} \<Longrightarrow>
   fst (broadcast_loop cs msg w) = Inr () \<and>
   (\<forall>c. received (snd (broadcast_loop cs msg w)) c =
        received w c @ replicate (count_list cs c) msg)"
proof (induction cs arbitrary: w)
  case Nil
  show ?case by simp
next
  case (Cons a cs)
  let ?w1 = "w\<lparr>received := (received w)(a := received w a @ [msg])\<rparr>"
  from Cons.prems have a: "a \<notin> disconnected w" and rest: "set cs \<inter> disconnected ?w1 = {}"
    by auto
  have step: "broadcast_loop (a # cs) msg w = broadcast_loop cs msg ?w1"
    using a by (simp add: send_json_def)
  from Cons.IH [OF rest] show ?case
    unfolding step by (simp add: replicate_append_same)
qed

text \<open>A disconnected socket in the list ends the loop with its error: nothing in the
  loop catches it.\<close>

lemma broadcast_loop_some_closed:
  "set cs \<inter> disconnected w \<noteq> {} \<Longrightarrow> fst (broadcast_loop cs msg w) = Inl SendError"
proof (induction cs arbitrary: w)
  case Nil
  then show ?case by simp
next
  case (Cons a cs)
  show ?case
  proof (cases "a \<in> disconnected w")
    case True
    then show ?thesis by (simp add: send_json_def)
  next
    case False
    let ?w1 = "w\<lparr>received := (received w)(a := received w a @ [msg])\<rparr>"
    from False Cons.prems have "set cs \<inter> disconnected ?w1 \<noteq> {}" by auto
    then have "fst (broadcast_loop cs msg ?w1) = Inl SendError" by (rule Cons.IH)
    then show ?thesis using False by (simp add: send_json_def)
  qed
qed

subsection \<open>The hourly rows\<close>

lemma get_stats_hours_unused: "get_stats hours now d = get_stats 24 now d"
  by (simp add: get_stats_def)

text \<open>With no row of the current day the daily average is NULL, whatever else the table
  holds.\<close>

lemma get_stats_no_event_today:
  assumes "\<forall>r \<in> set (detections d). sql_date (detection_time r) \<noteq> sql_date now"
  shows "daily_total (get_stats hours now d) = 0 \<and>
         daily_avg_confidence (get_stats hours now d) = None \<and>
         compost_kg (get_stats hours now d) = 0"
proof -
  from assms have "filter (\<lambda>r. sql_date (detection_time r) = sql_date now) (detections d) = []"
    by (simp add: filter_empty_conv)
  then show ?thesis
    by (simp add: get_stats_def sql_avg_def List.map_filter_simps Let_def)
qed






subsection \<open>The subscriber list along a run\<close>

text \<open>Every socket whose endpoint is in its receive loop is in the list, once; so the
  disconnect branch, which an endpoint runs at most once and only from that loop, always
  finds its socket and never raises.\<close>

lemma add_detection_connections:
  "active_connections (snd (add_detection now conf w)) = active_connections w"
proof (cases "largest_rowid (db w) < max_rowid")
  case False
  then show ?thesis by (simp add: add_detection_def insert_detection_full)
next
  case True
  let ?d' = "(db w)\<lparr>detections := detections (db w) @
                 [\<lparr>det_id = largest_rowid (db w) + 1, detection_time = now,
                   item_type = Some ''organic'', confidence = Some conf\<rparr>],
               sqlite_sequence := largest_rowid (db w) + 1\<rparr>"
  obtain msg where call: "add_detection now conf w =
      (case broadcast msg (w\<lparr>db := ?d'\<rparr>) of
         (Inl e, w') \<Rightarrow> (Inl e, w') | (Inr u, w') \<Rightarrow> (Inr ''success'', w'))"
    using True by (simp add: add_detection_def insert_detection_ok Let_def)
  have "active_connections (snd (broadcast msg (w\<lparr>db := ?d'\<rparr>))) = active_connections w"
    unfolding broadcast_def using broadcast_loop_fields [of _ msg "w\<lparr>db := ?d'\<rparr>"] by simp
  then show ?thesis
    unfolding call by (cases "broadcast msg (w\<lparr>db := ?d'\<rparr>)") (auto split: sum.splits)
qed

lemma run_invariant:
  "run U E w \<Longrightarrow>
   E \<subseteq> set (active_connections w) \<and> set (active_connections w) \<subseteq> U \<and>
   distinct (active_connections w)"
proof (induction rule: run.induct)
  case (start w)
  then show ?case by simp
next
  case (accept U E w ws)
  then show ?case by (auto simp: connect_def)
next
  case (disconnect U E w ws)
  then show ?case by (auto simp: websocket_disconnect_def list_remove_def)
next
  case (crash U E w ws)
  then show ?case by auto
next
  case (report U E w now conf)
  then show ?case by (simp add: add_detection_connections)
next
  case (lost U E w ws)
  then show ?case by simp
qed

lemma run_disconnect_never_raises:
  "run U E w \<Longrightarrow> ws \<in> E \<Longrightarrow>
   websocket_disconnect ws w =
     (Inr (), w\<lparr>active_connections := remove1 ws (active_connections w)\<rparr>)"
  using run_invariant [of U E w]
  by (auto simp: websocket_disconnect_def list_remove_def)

text \<open>What \<open>list.remove\<close> does where the program never calls it: on a socket that is not
  in the list it raises ValueError and changes nothing.\<close>

lemma websocket_disconnect_absent:
  "ws \<notin> set (active_connections w) \<Longrightarrow> websocket_disconnect ws w = (Inl ValueError, w)"
  by (simp add: websocket_disconnect_def list_remove_def)

subsection \<open>The monthly rows\<close>

lemma filter_key_distinct:
  "distinct ks \<Longrightarrow>
   filter (\<lambda>p. k = fst p) (map (\<lambda>j. (j, f j)) ks) = (if k \<in> set ks then [(k, f k)] else [])"
  by (induction ks) auto

lemma detections_by_month_rows:
  "detections_by_month d =
     map (\<lambda>k. (k, count_2025 d k))
       (sort_key (month_group_rank d) (remdups (map (\<lambda>r. strftime_m (detection_time r))
          (filter (\<lambda>r. strftime_Y (detection_time r) = 2025) (detections d)))))"
  by (simp add: detections_by_month_def sql_group_by_def comp_def conj_commute)

lemma detections_by_month_match:
  "filter (\<lambda>p. m = fst p) (detections_by_month d) =
     (if count_2025 d m = 0 then [] else [(m, count_2025 d m)])"
proof -
  let ?rows = "filter (\<lambda>r. strftime_Y (detection_time r) = 2025) (detections d)"
  let ?ks = "sort_key (month_group_rank d)
               (remdups (map (\<lambda>r. strftime_m (detection_time r)) ?rows))"
  have "distinct ?ks" by simp
  then have "filter (\<lambda>p. m = fst p) (map (\<lambda>k. (k, count_2025 d k)) ?ks) =
      (if m \<in> set ?ks then [(m, count_2025 d m)] else [])"
    by (rule filter_key_distinct)
  moreover have "m \<in> set ?ks \<longleftrightarrow> count_2025 d m \<noteq> 0"
    by (auto simp: filter_empty_conv)
  ultimately show ?thesis by (simp add: detections_by_month_rows)
qed

lemma left_join_months:
  "left_join ms (detections_by_month d) (\<lambda>m r. fst m = fst r) =
     map (\<lambda>m. (m, if count_2025 d (fst m) = 0 then None
                   else Some (fst m, count_2025 d (fst m)))) ms"
  by (induction ms) (simp_all add: left_join_def detections_by_month_match)

lemma months_sorted: "sorted (map fst months)"
  by (simp add: months_def)

lemma get_monthly_detections_rows:
  "get_monthly_detections d =
     map (\<lambda>m. \<lparr>month_name = snd m, detection_count = count_2025 d (fst m),
               masse = count_2025 d (fst m) * 100\<rparr>) months"
proof -
  let ?joined = "map (\<lambda>m. (m, if count_2025 d (fst m) = 0 then None
                   else Some (fst m, count_2025 d (fst m)))) months"
  have "map (\<lambda>(m, r). fst m) ?joined = map fst months" by (simp add: comp_def)
  then have "sort_key (\<lambda>(m, r). fst m) ?joined = ?joined"
    using months_sorted by (simp add: sort_key_id_if_sorted del: map_map)
  then show ?thesis
    by (simp add: get_monthly_detections_def left_join_months coalesce_def comp_def)
qed

lemma month_numbers: "map fst months = [1, 2, 3, 4, 5, 6, 7, 8, 9, 10, 11, 12]"
  by (simp add: months_def)

lemma month_names:
  "map snd months =
     [''Janvier'', [CHR ''F'', CHR 0xE9, CHR ''v'', CHR ''r'', CHR ''i'', CHR ''e'', CHR ''r''],
      ''Mars'', ''Avril'', ''Mai'', ''Juin'', ''Juillet'', [CHR ''A'', CHR ''o'', CHR 0xFB, CHR ''t''],
      ''Septembre'', ''Octobre'', ''Novembre'',
      [CHR ''D'', CHR 0xE9, CHR ''c'', CHR ''e'', CHR ''m'', CHR ''b'', CHR ''r'', CHR ''e'']]"
  by (simp add: months_def)

lemma nth_month_number: "i < 12 \<Longrightarrow> fst (months ! i) = int i + 1"
proof -
  assume "i < 12"
  then have "i \<in> {0, 1, 2, 3, 4, 5, 6, 7, 8, 9, 10, 11}"
    by simp presburger
  then show ?thesis by (auto simp: months_def)
qed

section \<open>Broadcast to the subscribers\<close>

text \<open>
  Claim C1, as the code has it: for every list of subscribed sockets and every message,
  when the delivery to every subscribed socket succeeds, \<open>broadcast\<close> raises no error,
  every socket receives the message once for each of its entries in the list (so every
  subscriber receives it, and no other socket does), and the list of subscribers is
  unchanged.
\<close>

theorem broadcast_delivers_when_all_open:
  "set (active_connections w) \<inter> disconnected w = {} \<Longrightarrow>
   fst (broadcast msg w) = Inr () \<and>
   (\<forall>c. received (snd (broadcast msg w)) c =
        received w c @ replicate (count_list (active_connections w) c) msg) \<and>
   active_connections (snd (broadcast msg w)) = active_connections w"
  unfolding broadcast_def
  using broadcast_loop_fields [of "active_connections w" msg w]
    broadcast_loop_all_open [of "active_connections w" w msg]
  by blast

theorem broadcast_delivers_when_all_open_witness:
  "fst (broadcast msg0 (connect 2 (connect 1 hub0))) = Inr () \<and>
   received (snd (broadcast msg0 (connect 2 (connect 1 hub0)))) 1 = [msg0] \<and>
   received (snd (broadcast msg0 (connect 2 (connect 1 hub0)))) 2 = [msg0] \<and>
   received (snd (broadcast msg0 (connect 2 (connect 1 hub0)))) 3 = [] \<and>
   active_connections (snd (broadcast msg0 (connect 2 (connect 1 hub0)))) = [1, 2]"
  using broadcast_delivers_when_all_open [where msg = msg0 and w = "connect 2 (connect 1 hub0)"]
  by (simp add: connect_def hub0_def)

text \<open>
  The claim as the specification states it fails. Sockets 1 and 2 are subscribed and the
  connection of socket 1 is gone. A detection is reported: the handler ends with the send
  error, socket 2 has received nothing, socket 1 is still in the list, and the detection
  is in the table.
\<close>

theorem broadcast_dead_client_aborts:
  "fst (add_detection 1742041800 (9 / 10) hub_one_dead) = Inl SendError \<and>
   received (snd (add_detection 1742041800 (9 / 10) hub_one_dead)) 2 = [] \<and>
   active_connections (snd (add_detection 1742041800 (9 / 10) hub_one_dead)) = [1, 2] \<and>
   length (detections (db (snd (add_detection 1742041800 (9 / 10) hub_one_dead)))) = 1"
  by (simp add: add_detection_def insert_detection_ok max_rowid_def hub0_def hub_one_dead_def
      init_db_def largest_rowid_def broadcast_def send_json_def Let_def)

section \<open>Daily statistics of an empty store\<close>

text \<open>
  Claim C2: with no event in the window the daily statistics should report an average
  confidence of 0. On the empty table \<open>get_stats\<close> reports \<open>daily_total = 0\<close> and
  \<open>compost_kg = 0\<close>, but \<open>daily_avg_confidence\<close> is \<open>None\<close>: \<open>AVG\<close> over no rows is NULL
  and \<open>daily[1]\<close> is returned as it is, whereas the hourly averages go through
  \<open>float(conf or 0)\<close>.
\<close>

theorem get_stats_empty_store:
  "get_stats hours now init_db =
     \<lparr>daily_total = 0, daily_avg_confidence = None, compost_kg = 0, hourly_data = []\<rparr>"
  by (simp add: get_stats_def init_db_def sql_avg_def sql_group_by_def List.map_filter_simps)

section \<open>The window of the hourly breakdown\<close>

text \<open>
  Claim C3: the hourly breakdown should hold exactly the events of the trailing \<open>hours\<close>
  hours. The query compares with \<open>datetime('now', '-24 hours')\<close> whatever \<open>hours\<close> is.
  At 2025-03-15 12:31:40 UTC with \<open>hours = 1\<close>, the detection of 10:15:00, more than two
  hours old, is in the breakdown.
\<close>

theorem get_stats_one_hour_window:
  "hourly_data (get_stats 1 1742041900 db_two) =
     [\<lparr>hour = ''10'', count = 1, avg_confidence = 9 / 10\<rparr>,
      \<lparr>hour = ''12'', count = 1, avg_confidence = 1 / 2\<rparr>]"
  by code_simp

section \<open>The monthly breakdown\<close>

text \<open>
  Claim C5: for every store state the monthly breakdown has exactly 12 entries, one per
  calendar month in the order January to December; every entry has
  \<open>masse = detection_count * 100\<close>; and the entry of a month in which the store has no
  event of the year counted reports \<open>detection_count = 0\<close> and \<open>masse = 0\<close> (so does, in
  particular, a month with no event at all).
\<close>

theorem monthly_twelve_rows:
  "length (get_monthly_detections d) = 12 \<and>
   map month_name (get_monthly_detections d) =
     [''Janvier'', [CHR ''F'', CHR 0xE9, CHR ''v'', CHR ''r'', CHR ''i'', CHR ''e'', CHR ''r''],
      ''Mars'', ''Avril'', ''Mai'', ''Juin'', ''Juillet'', [CHR ''A'', CHR ''o'', CHR 0xFB, CHR ''t''],
      ''Septembre'', ''Octobre'', ''Novembre'',
      [CHR ''D'', CHR 0xE9, CHR ''c'', CHR ''e'', CHR ''m'', CHR ''b'', CHR ''r'', CHR ''e'']] \<and>
   (\<forall>e \<in> set (get_monthly_detections d). masse e = detection_count e * 100) \<and>
   (\<forall>i < 12.
      (\<forall>r \<in> set (detections d).
          strftime_Y (detection_time r) = 2025 \<longrightarrow> strftime_m (detection_time r) \<noteq> int i + 1) \<longrightarrow>
      detection_count (get_monthly_detections d ! i) = 0 \<and>
      masse (get_monthly_detections d ! i) = 0)"
proof -
  have len: "length (get_monthly_detections d) = 12"
    by (simp add: get_monthly_detections_rows months_def)
  have names: "map month_name (get_monthly_detections d) = map snd months"
    by (simp add: get_monthly_detections_rows comp_def)
  have mass: "\<forall>e \<in> set (get_monthly_detections d). masse e = detection_count e * 100"
    by (auto simp: get_monthly_detections_rows)
  have empty: "detection_count (get_monthly_detections d ! i) = 0 \<and>
      masse (get_monthly_detections d ! i) = 0"
    if i: "i < 12" and none: "\<forall>r \<in> set (detections d).
          strftime_Y (detection_time r) = 2025 \<longrightarrow> strftime_m (detection_time r) \<noteq> int i + 1"
    for i
  proof -
    from i have "i < length months" by (simp add: months_def)
    then have row: "get_monthly_detections d ! i =
        \<lparr>month_name = snd (months ! i), detection_count = count_2025 d (int i + 1),
         masse = count_2025 d (int i + 1) * 100\<rparr>"
      by (simp add: get_monthly_detections_rows nth_month_number [OF i])
    from none have "count_2025 d (int i + 1) = 0"
      by (auto simp: filter_empty_conv)
    with row show ?thesis by simp
  qed
  show ?thesis using len names mass empty unfolding month_names by blast
qed

theorem monthly_twelve_rows_witness:
  "length (get_monthly_detections db_years) = 12 \<and>
   map masse (get_monthly_detections db_years) = [0, 0, 200, 0, 0, 0, 0, 0, 0, 0, 0, 0] \<and>
   detection_count (get_monthly_detections db_years ! 0) = 0"
proof -
  have m: "map masse (get_monthly_detections db_years) = [0, 0, 200, 0, 0, 0, 0, 0, 0, 0, 0, 0]"
    by code_simp
  have none: "\<forall>r \<in> set (detections db_years).
          strftime_Y (detection_time r) = 2025 \<longrightarrow> strftime_m (detection_time r) \<noteq> int 0 + 1"
    by code_simp
  from monthly_twelve_rows [of db_years] none m show ?thesis by auto
qed

section \<open>Reporting a detection\<close>

text \<open>
  Claim C6: for every confidence and every state, when \<open>add_detection\<close> answers with
  success the table holds exactly one row more than before, the old rows unchanged and
  the new row last, and the id of the new row is strictly greater than the id of every
  row stored before and than the largest id ever assigned.
\<close>

theorem add_detection_appends_one:
  assumes "fst (add_detection now conf w) = Inr r"
  shows "length (detections (db (snd (add_detection now conf w)))) =
           length (detections (db w)) + 1 \<and>
         (\<exists>row. detections (db (snd (add_detection now conf w))) = detections (db w) @ [row] \<and>
            confidence row = Some conf \<and>
            sqlite_sequence (db w) < det_id row \<and>
            (\<forall>old \<in> set (detections (db w)). det_id old < det_id row))"
proof (cases "largest_rowid (db w) < max_rowid")
  case False
  then have "fst (add_detection now conf w) = Inl DatabaseFull"
    by (simp add: add_detection_def insert_detection_full)
  with assms show ?thesis by simp
next
  case True
  let ?row = "\<lparr>det_id = largest_rowid (db w) + 1, detection_time = now,
               item_type = Some ''organic'', confidence = Some conf\<rparr>"
  let ?d' = "(db w)\<lparr>detections := detections (db w) @ [?row],
                    sqlite_sequence := largest_rowid (db w) + 1\<rparr>"
  obtain msg where call: "add_detection now conf w =
      (case broadcast msg (w\<lparr>db := ?d'\<rparr>) of
         (Inl e, w') \<Rightarrow> (Inl e, w') | (Inr u, w') \<Rightarrow> (Inr ''success'', w'))"
    using True by (simp add: add_detection_def insert_detection_ok Let_def)
  have "db (snd (broadcast msg (w\<lparr>db := ?d'\<rparr>))) = ?d'"
    unfolding broadcast_def using broadcast_loop_fields [of _ msg "w\<lparr>db := ?d'\<rparr>"] by simp
  then have after: "db (snd (add_detection now conf w)) = ?d'"
    unfolding call by (cases "broadcast msg (w\<lparr>db := ?d'\<rparr>)") (auto split: sum.splits)
  have seq: "sqlite_sequence (db w) < det_id ?row"
    using largest_rowid_ge_seq [of "db w"] by simp
  have olds: "\<forall>old \<in> set (detections (db w)). det_id old < det_id ?row"
    using largest_rowid_ge_row [of _ "db w"] by fastforce
  show ?thesis
    unfolding after using seq olds by simp
qed

theorem add_detection_appends_one_witness:
  "fst (add_detection 1742041900 (7 / 10) (connect 1 (hub0\<lparr>db := db_two\<rparr>))) = Inr ''success'' \<and>
   length (detections (db (snd (add_detection 1742041900 (7 / 10)
     (connect 1 (hub0\<lparr>db := db_two\<rparr>)))))) = 3"
proof -
  have ok: "fst (add_detection 1742041900 (7 / 10) (connect 1 (hub0\<lparr>db := db_two\<rparr>))) =
      Inr ''success''"
    by (simp add: add_detection_def insert_detection_ok max_rowid_def hub0_def connect_def
        db_two_def largest_rowid_def broadcast_def send_json_def Let_def)
  from add_detection_appends_one [OF ok] ok show ?thesis
    by (simp add: connect_def hub0_def db_two_def)
qed

section \<open>The category constraint\<close>



section \<open>The rows of the hourly breakdown\<close>




section \<open>The year and the month names of the monthly breakdown\<close>

text \<open>
  Claim C9: the monthly breakdown counts only the events of the calendar year 2025, and
  the month names are the twelve French names of the query, accents included. The count of each month is
  the number of stored events of year 2025 in that month, so a stored event of another
  year changes no entry.
\<close>

theorem monthly_counts_year_2025_only:
  "map month_name (get_monthly_detections d) =
     [''Janvier'', [CHR ''F'', CHR 0xE9, CHR ''v'', CHR ''r'', CHR ''i'', CHR ''e'', CHR ''r''],
      ''Mars'', ''Avril'', ''Mai'', ''Juin'', ''Juillet'', [CHR ''A'', CHR ''o'', CHR 0xFB, CHR ''t''],
      ''Septembre'', ''Octobre'', ''Novembre'',
      [CHR ''D'', CHR 0xE9, CHR ''c'', CHR ''e'', CHR ''m'', CHR ''b'', CHR ''r'', CHR ''e'']] \<and>
   map detection_count (get_monthly_detections d) =
     map (\<lambda>m. length (filter (\<lambda>r. strftime_Y (detection_time r) = 2025 \<and>
                                   strftime_m (detection_time r) = m) (detections d)))
       [1, 2, 3, 4, 5, 6, 7, 8, 9, 10, 11, 12] \<and>
   (\<forall>r. strftime_Y (detection_time r) \<noteq> 2025 \<longrightarrow>
      get_monthly_detections (d\<lparr>detections := detections d @ [r]\<rparr>) = get_monthly_detections d)"
proof -
  have names: "map month_name (get_monthly_detections d) = map snd months"
    by (simp add: get_monthly_detections_rows comp_def)
  have "map detection_count (get_monthly_detections d) = map (count_2025 d) (map fst months)"
    by (simp add: get_monthly_detections_rows comp_def)
  then have counts: "map detection_count (get_monthly_detections d) =
      map (count_2025 d) [1, 2, 3, 4, 5, 6, 7, 8, 9, 10, 11, 12]"
    by (simp only: month_numbers)
  have other: "get_monthly_detections (d\<lparr>detections := detections d @ [r]\<rparr>) =
      get_monthly_detections d" if "strftime_Y (detection_time r) \<noteq> 2025" for r
    using that by (simp add: get_monthly_detections_rows)
  show ?thesis using names counts other unfolding month_names by blast
qed

theorem monthly_counts_year_2025_only_witness:
  "map detection_count (get_monthly_detections db_years) = [0, 0, 2, 0, 0, 0, 0, 0, 0, 0, 0, 0] \<and>
   map (\<lambda>r. strftime_Y (detection_time r)) (detections db_years) = [2024, 2025, 2025, 2026] \<and>
   map (\<lambda>r. strftime_m (detection_time r)) (detections db_years) = [3, 3, 3, 1]"
proof -
  have years: "map (\<lambda>r. strftime_Y (detection_time r)) (detections db_years) =
      [2024, 2025, 2025, 2026]"
    by code_simp
  have ms: "map (\<lambda>r. strftime_m (detection_time r)) (detections db_years) = [3, 3, 3, 1]"
    by code_simp
  have "map (\<lambda>m. length (filter (\<lambda>r. strftime_Y (detection_time r) = 2025 \<and>
                                   strftime_m (detection_time r) = m) (detections db_years)))
       [1, 2, 3, 4, 5, 6, 7, 8, 9, 10, 11, 12] = [0, 0, 2, 0, 0, 0, 0, 0, 0, 0, 0, 0]"
    by code_simp
  with monthly_counts_year_2025_only [of db_years] years ms show ?thesis by simp
qed

section \<open>Reporting with no subscriber\<close>

text \<open>
  Claim C10: when the subscriber list is empty, \<open>broadcast\<close> changes nothing and raises
  nothing, and \<open>add_detection\<close> appends the event and answers with success. The second
  hypothesis only excludes a table whose rowids are exhausted, where the insert itself
  fails.
\<close>

theorem add_detection_no_clients:
  "active_connections w = [] \<Longrightarrow> largest_rowid (db w) < max_rowid \<Longrightarrow>
   (\<forall>msg. broadcast msg w = (Inr (), w)) \<and>
   add_detection now conf w =
     (Inr ''success'',
      w\<lparr>db := (db w)\<lparr>detections := detections (db w) @
                    [\<lparr>det_id = largest_rowid (db w) + 1, detection_time = now,
                      item_type = Some ''organic'', confidence = Some conf\<rparr>],
                  sqlite_sequence := largest_rowid (db w) + 1\<rparr>\<rparr>)"
  by (simp add: add_detection_def insert_detection_ok broadcast_def Let_def)

theorem add_detection_no_clients_witness:
  "add_detection 1742041800 (9 / 10) hub0 =
     (Inr ''success'',
      hub0\<lparr>db := init_db\<lparr>detections := [\<lparr>det_id = 1, detection_time = 1742041800,
                      item_type = Some ''organic'', confidence = Some (9 / 10)\<rparr>],
                  sqlite_sequence := 1\<rparr>\<rparr>)"
  using add_detection_no_clients [where w = hub0 and now = 1742041800 and conf = "9 / 10"]
  by (simp add: hub0_def max_rowid_def init_db_def largest_rowid_def)

end
